theory Spec2Isabelle
  imports Main "HOL-Library.Word"
begin

section \<open>JavaScript values used by the machine\<close>

text \<open>
  The engine computes with JavaScript numbers. Every number that occurs is an integer
  (array elements, their sums, differences and products, floored quotients, remainders),
  the value \<open>NaN\<close> (arithmetic on \<open>undefined\<close>), or \<open>undefined\<close> itself (a typed-array
  read outside the array, an absent field of an effect descriptor). Negative zero is
  identified with zero: no check of the source distinguishes them and a typed array
  stores both as 0.
\<close>

datatype jsval = Num int | NaN | Undefined

fun js_add :: "jsval \<Rightarrow> jsval \<Rightarrow> jsval" where
  "js_add (Num a) (Num b) = Num (a + b)"
| "js_add _ _ = NaN"

fun js_sub :: "jsval \<Rightarrow> jsval \<Rightarrow> jsval" where
  "js_sub (Num a) (Num b) = Num (a - b)"
| "js_sub _ _ = NaN"

fun js_mul :: "jsval \<Rightarrow> jsval \<Rightarrow> jsval" where
  "js_mul (Num a) (Num b) = Num (a * b)"
| "js_mul _ _ = NaN"

text \<open>
  \<open>a < b\<close>, \<open>a > b\<close> and \<open>a >= b\<close>: a comparison with \<open>undefined\<close> or \<open>NaN\<close> is
  false.
\<close>

fun js_less :: "jsval \<Rightarrow> jsval \<Rightarrow> bool" where
  "js_less (Num a) (Num b) = (a < b)"
| "js_less _ _ = False"

fun js_greater :: "jsval \<Rightarrow> jsval \<Rightarrow> bool" where
  "js_greater (Num a) (Num b) = (a > b)"
| "js_greater _ _ = False"

fun js_ge :: "jsval \<Rightarrow> jsval \<Rightarrow> bool" where
  "js_ge (Num a) (Num b) = (a \<ge> b)"
| "js_ge _ _ = False"

text \<open>\<open>a === b\<close>: \<open>NaN\<close> equals nothing, \<open>undefined\<close> equals itself only.\<close>

fun js_strict_eq :: "jsval \<Rightarrow> jsval \<Rightarrow> bool" where
  "js_strict_eq (Num a) (Num b) = (a = b)"
| "js_strict_eq Undefined Undefined = True"
| "js_strict_eq _ _ = False"

text \<open>
  The operator \<open>%\<close> on integers: the remainder of the division that truncates towards
  zero, so the result has the sign of the dividend.
\<close>

definition js_rem :: "int \<Rightarrow> int \<Rightarrow> int" where
  "js_rem a b = sgn a * (\<bar>a\<bar> mod \<bar>b\<bar>)"

section \<open>Typed arrays\<close>

text \<open>
  An \<open>Int8Array\<close> is a fixed-length list of 8-bit words, read as signed. A read at an
  index that is not an integer inside the array yields \<open>undefined\<close>; a write there is
  ignored; a written number is converted modulo \<open>2^8\<close>, and \<open>NaN\<close> and \<open>undefined\<close> are
  written as 0.
\<close>

type_synonym int8array = "8 word list"

fun typedArrayGet :: "int8array \<Rightarrow> jsval \<Rightarrow> jsval" where
  "typedArrayGet xs (Num i) =
     (if 0 \<le> i \<and> i < int (length xs) then Num (sint (xs ! nat i)) else Undefined)"
| "typedArrayGet xs _ = Undefined"

fun toInt8 :: "jsval \<Rightarrow> 8 word" where
  "toInt8 (Num v) = word_of_int v"
| "toInt8 _ = 0"

fun typedArraySet :: "int8array \<Rightarrow> jsval \<Rightarrow> jsval \<Rightarrow> int8array" where
  "typedArraySet xs (Num i) v =
     (if 0 \<le> i \<and> i < int (length xs) then xs[nat i := toInt8 v] else xs)"
| "typedArraySet xs _ v = xs"

text \<open>
  \<open>fill(value, start, end)\<close>: a negative bound counts from the end of the array, and
  both bounds are clamped to the array.
\<close>

definition relativeIndex :: "nat \<Rightarrow> int \<Rightarrow> int" where
  "relativeIndex len i = (if i < 0 then max (int len + i) 0 else min i (int len))"

definition fill :: "int8array \<Rightarrow> 8 word \<Rightarrow> int \<Rightarrow> int \<Rightarrow> int8array" where
  "fill xs v start end =
     map (\<lambda>i. if relativeIndex (length xs) start \<le> int i \<and> int i < relativeIndex (length xs) end
               then v else xs ! i)
         [0..<length xs]"

section \<open>The stack machine (src/stack-machine.js)\<close>

datatype operation =
    OpHalt | OpNoOperation | OpPush | OpPop | OpStore | OpLoad | OpAdd | OpSubtract
  | OpMultiply | OpDivide | OpLess | OpGreater | OpSame | OpDifferent | OpAnd | OpOr
  | OpNot | OpJump | OpJumpConditionally

text \<open>The keys of \<open>StackMachine.operations\<close>, in their order of declaration.\<close>

definition operations :: "operation list" where
  "operations =
     [OpHalt, OpNoOperation, OpPush, OpPop, OpStore, OpLoad, OpAdd, OpSubtract,
      OpMultiply, OpDivide, OpLess, OpGreater, OpSame, OpDifferent, OpAnd, OpOr,
      OpNot, OpJump, OpJumpConditionally]"

datatype error_class = PlainError | RangeError | TypeError

text \<open>
  Every \<open>throw\<close> of the two source files, one constructor each. The five \<open>Fail\<close>
  constructors are the calls of \<open>#fail\<close> in \<open>#defineSafeStateChange\<close>, carrying the
  rejected field as the message.
\<close>

datatype error =
    InvalidOperationCode jsval
  | InvalidOperationName operation
  | AddressOutOfMemoryBounds jsval
  | StackMustContainAtLeast int
  | FailNumStackValuesPopped int
  | FailStackValuesPushed "jsval list"
  | FailMemoryAddressWritten jsval
  | FailMemoryValueWritten jsval
  | FailInstructionPointerDiff jsval
  | ProgramNotInt8Array
  | ProgramEmpty
  | ProgramSizeExceedsMemory
  | ProgramLengthExceedsMemory
  | CapturesNull
  | InvalidAssemblyCode string
  | DataValueExceedsRange jsval nat

fun errorClass :: "error \<Rightarrow> error_class" where
  "errorClass (InvalidOperationCode _) = RangeError"
| "errorClass (InvalidOperationName _) = PlainError"
| "errorClass (AddressOutOfMemoryBounds _) = RangeError"
| "errorClass (StackMustContainAtLeast _) = RangeError"
| "errorClass (FailNumStackValuesPopped _) = PlainError"
| "errorClass (FailStackValuesPushed _) = PlainError"
| "errorClass (FailMemoryAddressWritten _) = PlainError"
| "errorClass (FailMemoryValueWritten _) = PlainError"
| "errorClass (FailInstructionPointerDiff _) = PlainError"
| "errorClass ProgramNotInt8Array = TypeError"
| "errorClass ProgramEmpty = RangeError"
| "errorClass ProgramSizeExceedsMemory = RangeError"
| "errorClass ProgramLengthExceedsMemory = RangeError"
| "errorClass CapturesNull = TypeError"
| "errorClass (InvalidAssemblyCode _) = PlainError"
| "errorClass (DataValueExceedsRange _ _) = RangeError"

definition getOpNameByCode :: "jsval \<Rightarrow> error + operation" where
  "getOpNameByCode opCode =
     (case opCode of
        Num n \<Rightarrow> if 0 \<le> n \<and> n < int (length operations) then Inr (operations ! nat n)
                 else Inl (InvalidOperationCode opCode)
      | _ \<Rightarrow> Inl (InvalidOperationCode opCode))"

fun findIndex :: "('a \<Rightarrow> bool) \<Rightarrow> 'a list \<Rightarrow> int" where
  "findIndex p [] = -1"
| "findIndex p (x # xs) =
     (if p x then 0 else (let i = findIndex p xs in if i = -1 then -1 else i + 1))"

definition getOpCodeByName :: "operation \<Rightarrow> error + int" where
  "getOpCodeByName opName =
     (let opCode = findIndex (\<lambda>op. op = opName) operations
      in if opCode = -1 then Inl (InvalidOperationName opName) else Inr opCode)"

definition wordSize :: nat where
  "wordSize = 8"

definition stackSize :: nat where
  "stackSize = 2 ^ wordSize"

definition memorySize :: nat where
  "memorySize = 2 ^ wordSize"

record machine =
  stack :: int8array
  stackCounter :: int
  memory :: int8array
  instructionPointer :: jsval

text \<open>The field initialisers of a new instance.\<close>

definition newStackMachine :: machine where
  "newStackMachine =
     \<lparr> stack = replicate stackSize 0, stackCounter = 0,
       memory = replicate memorySize 0, instructionPointer = Num 0 \<rparr>"

text \<open>
  The argument of \<open>load\<close>: an \<open>Int8Array\<close>, or something that is not one (a plain array,
  a primitive value). The result of \<open>load\<close> is the error thrown, if any, and the machine
  as the call leaves it.
\<close>

datatype argument = Int8Array int8array | PlainArray "jsval list" | Primitive jsval

definition load :: "argument \<Rightarrow> machine \<Rightarrow> error option \<times> machine" where
  "load arg m =
     (case arg of
        Int8Array words \<Rightarrow>
          if length words = 0 then (Some ProgramEmpty, m)
          else if length words > memorySize then (Some ProgramSizeExceedsMemory, m)
          else (None, m\<lparr>memory :=
                  fold (\<lambda>i mem.
                          typedArraySet mem (Num (int i)) (typedArrayGet words (Num (int i))))
                       [0..<length words] (memory m)\<rparr>)
      | _ \<Rightarrow> (Some ProgramNotInt8Array, m))"

text \<open>The descriptor of a state change; an absent field is \<open>undefined\<close> or its default.\<close>

record effect =
  halt :: bool
  numStackValuesPopped :: int
  stackValuesPushed :: "jsval list"
  memoryAddressWritten :: jsval
  memoryValueWritten :: jsval
  instructionPointerDiff :: jsval

definition defaults :: effect where
  "defaults =
     \<lparr> halt = False, numStackValuesPopped = 0, stackValuesPushed = [],
       memoryAddressWritten = Undefined, memoryValueWritten = Undefined,
       instructionPointerDiff = Undefined \<rparr>"

definition ensureMemoryBounds :: "jsval \<Rightarrow> error + unit" where
  "ensureMemoryBounds address =
     (if js_less address (Num 0) \<or> js_ge address (Num (int memorySize))
      then Inl (AddressOutOfMemoryBounds address) else Inr ())"

definition ensureStackCount :: "machine \<Rightarrow> int \<Rightarrow> error + unit" where
  "ensureStackCount m amount =
     (if stackCounter m < amount then Inl (StackMustContainAtLeast amount) else Inr ())"

text \<open>
  \<open>#isInStackCount(value)\<close> is \<open>(Number.isInteger(value) && 0 <= value) || value <
  this.#stackCounter\<close>; the values passed are the integer literals of the descriptors.
\<close>

definition isInStackCount :: "machine \<Rightarrow> int \<Rightarrow> bool" where
  "isInStackCount m v = ((0 \<le> v) \<or> v < stackCounter m)"

fun isInValueRange :: "jsval \<Rightarrow> bool" where
  "isInValueRange (Num v) = (- (2 ^ (wordSize - 1)) \<le> v \<and> v \<le> 2 ^ (wordSize - 1) - 1)"
| "isInValueRange _ = False"

fun isInAddressRange :: "jsval \<Rightarrow> bool" where
  "isInAddressRange (Num a) = (0 \<le> a \<and> a < int memorySize)"
| "isInAddressRange _ = False"

text \<open>
  \<open>#defineSafeStateChange\<close>. Its checks that \<open>halt\<close> is a boolean and that
  \<open>stackValuesPushed\<close> is an array hold for every descriptor built in the source; the types
  of the record express them. The other five checks, in the order of the source:
\<close>

definition defineSafeStateChange :: "machine \<Rightarrow> effect \<Rightarrow> error + effect" where
  "defineSafeStateChange m c =
     (if \<not> isInStackCount m (numStackValuesPopped c)
        then Inl (FailNumStackValuesPopped (numStackValuesPopped c))
      else if \<not> list_all isInValueRange (stackValuesPushed c)
        then Inl (FailStackValuesPushed (stackValuesPushed c))
      else if memoryAddressWritten c \<noteq> Undefined \<and> \<not> isInAddressRange (memoryAddressWritten c)
        then Inl (FailMemoryAddressWritten (memoryAddressWritten c))
      else if memoryValueWritten c \<noteq> Undefined \<and> \<not> isInValueRange (memoryValueWritten c)
        then Inl (FailMemoryValueWritten (memoryValueWritten c))
      else if \<not> halt c
              \<and> \<not> isInAddressRange (js_add (instructionPointer m) (instructionPointerDiff c))
        then Inl (FailInstructionPointerDiff (instructionPointerDiff c))
      else Inr c)"

text \<open>The operand reads \<open>this.#stack[this.#stackCounter - k]\<close>.\<close>

definition stackAt :: "machine \<Rightarrow> int \<Rightarrow> jsval" where
  "stackAt m k = typedArrayGet (stack m) (Num (stackCounter m - k))"

text \<open>The conditional \<open>condition ? 1 : 0\<close>.\<close>

definition truth :: "bool \<Rightarrow> jsval" where
  "truth b = (if b then Num 1 else Num 0)"

text \<open>
  Every operation method has the same shape: at most one guard (\<open>#ensureStackCount\<close> or
  \<open>#ensureMemoryBounds\<close>), then \<open>return this.#defineSafeStateChange({...})\<close>. The
  guard of each method:
\<close>

fun guard :: "operation \<Rightarrow> machine \<Rightarrow> error + unit" where
  "guard OpHalt m = Inr ()"
| "guard OpNoOperation m = Inr ()"
| "guard OpPush m = ensureMemoryBounds (js_add (instructionPointer m) (Num 1))"
| "guard OpPop m = Inr ()"
| "guard OpStore m = ensureStackCount m 2"
| "guard OpLoad m = ensureStackCount m 1"
| "guard OpAdd m = ensureStackCount m 2"
| "guard OpSubtract m = ensureStackCount m 2"
| "guard OpMultiply m = ensureStackCount m 2"
| "guard OpDivide m = ensureStackCount m 2"
| "guard OpLess m = ensureStackCount m 2"
| "guard OpGreater m = ensureStackCount m 2"
| "guard OpSame m = ensureStackCount m 2"
| "guard OpDifferent m = ensureStackCount m 2"
| "guard OpAnd m = ensureStackCount m 2"
| "guard OpOr m = ensureStackCount m 2"
| "guard OpNot m = ensureStackCount m 1"
| "guard OpJump m = ensureStackCount m 1"
| "guard OpJumpConditionally m = ensureStackCount m 2"

text \<open>
  \<open>Math.floor(dividend / divisor)\<close> and \<open>dividend % divisor\<close> for a divisor other than
  0. The operands are array elements, at most 128 in absolute value, so the floating-point
  quotient floors to the floor of the exact quotient. An \<open>undefined\<close> operand makes both
  results \<open>NaN\<close>.
\<close>

fun floorQuotient :: "jsval \<Rightarrow> jsval \<Rightarrow> jsval" where
  "floorQuotient (Num a) (Num b) = Num (a div b)"
| "floorQuotient _ _ = NaN"

fun remainderOf :: "jsval \<Rightarrow> jsval \<Rightarrow> jsval" where
  "remainderOf (Num a) (Num b) = Num (js_rem a b)"
| "remainderOf _ _ = NaN"

text \<open>The local variables \<open>quotient\<close> and \<open>remainder\<close> of \<open>#divide\<close>.\<close>

definition quotient :: "jsval \<Rightarrow> jsval \<Rightarrow> jsval" where
  "quotient dividend divisor =
     (if js_strict_eq divisor (Num 0) then dividend else floorQuotient dividend divisor)"

definition remainder :: "jsval \<Rightarrow> jsval \<Rightarrow> jsval" where
  "remainder dividend divisor =
     (if js_strict_eq divisor (Num 0) then dividend else remainderOf dividend divisor)"

text \<open>The object that each method passes to \<open>#defineSafeStateChange\<close>.\<close>

fun descriptor :: "operation \<Rightarrow> machine \<Rightarrow> effect" where
  "descriptor OpHalt m = defaults\<lparr>halt := True\<rparr>"
| "descriptor OpNoOperation m = defaults\<lparr>instructionPointerDiff := Num 1\<rparr>"
| "descriptor OpPush m = defaults\<lparr>
     stackValuesPushed := [typedArrayGet (memory m) (js_add (instructionPointer m) (Num 1))],
     instructionPointerDiff := Num 2\<rparr>"
| "descriptor OpPop m = defaults\<lparr>
     numStackValuesPopped := 1,
     instructionPointerDiff := Num 1\<rparr>"
| "descriptor OpStore m = defaults\<lparr>
     numStackValuesPopped := 2,
     memoryAddressWritten := stackAt m 1,
     memoryValueWritten := stackAt m 2,
     instructionPointerDiff := Num 1\<rparr>"
| "descriptor OpLoad m = defaults\<lparr>
     numStackValuesPopped := 1,
     stackValuesPushed := [typedArrayGet (memory m) (stackAt m 1)],
     instructionPointerDiff := Num 1\<rparr>"
| "descriptor OpAdd m = defaults\<lparr>
     numStackValuesPopped := 2,
     stackValuesPushed := [js_add (stackAt m 1) (stackAt m 2)],
     instructionPointerDiff := Num 1\<rparr>"
| "descriptor OpSubtract m = defaults\<lparr>
     numStackValuesPopped := 2,
     stackValuesPushed := [js_sub (stackAt m 1) (stackAt m 2)],
     instructionPointerDiff := Num 1\<rparr>"
| "descriptor OpMultiply m = defaults\<lparr>
     numStackValuesPopped := 2,
     stackValuesPushed := [js_mul (stackAt m 1) (stackAt m 2)],
     instructionPointerDiff := Num 1\<rparr>"
| "descriptor OpDivide m = defaults\<lparr>
     numStackValuesPopped := 2,
     stackValuesPushed :=
       [remainder (stackAt m 1) (stackAt m 2), quotient (stackAt m 1) (stackAt m 2)],
     instructionPointerDiff := Num 1\<rparr>"
| "descriptor OpLess m = defaults\<lparr>
     numStackValuesPopped := 2,
     stackValuesPushed := [truth (js_less (stackAt m 1) (stackAt m 2))],
     instructionPointerDiff := Num 1\<rparr>"
| "descriptor OpGreater m = defaults\<lparr>
     numStackValuesPopped := 2,
     stackValuesPushed := [truth (js_greater (stackAt m 1) (stackAt m 2))],
     instructionPointerDiff := Num 1\<rparr>"
| "descriptor OpSame m = defaults\<lparr>
     numStackValuesPopped := 2,
     stackValuesPushed := [truth (js_strict_eq (stackAt m 1) (stackAt m 2))],
     instructionPointerDiff := Num 1\<rparr>"
| "descriptor OpDifferent m = defaults\<lparr>
     numStackValuesPopped := 2,
     stackValuesPushed := [truth (\<not> js_strict_eq (stackAt m 1) (stackAt m 2))],
     instructionPointerDiff := Num 1\<rparr>"
| "descriptor OpAnd m = defaults\<lparr>
     numStackValuesPopped := 2,
     stackValuesPushed :=
       [truth (js_strict_eq (stackAt m 1) (Num 1) \<and> js_strict_eq (stackAt m 2) (Num 1))],
     instructionPointerDiff := Num 1\<rparr>"
| "descriptor OpOr m = defaults\<lparr>
     numStackValuesPopped := 2,
     stackValuesPushed :=
       [truth (js_strict_eq (stackAt m 1) (Num 1) \<or> js_strict_eq (stackAt m 2) (Num 1))],
     instructionPointerDiff := Num 1\<rparr>"
| "descriptor OpNot m = defaults\<lparr>
     numStackValuesPopped := 1,
     stackValuesPushed := [truth (js_strict_eq (stackAt m 1) (Num 0))],
     instructionPointerDiff := Num 1\<rparr>"
| "descriptor OpJump m = defaults\<lparr>
     numStackValuesPopped := 1,
     instructionPointerDiff := js_sub (stackAt m 1) (instructionPointer m)\<rparr>"
| "descriptor OpJumpConditionally m = defaults\<lparr>
     numStackValuesPopped := 2,
     instructionPointerDiff :=
       (if js_strict_eq (stackAt m 1) (Num 1)
        then js_sub (stackAt m 2) (instructionPointer m)
        else Num 1)\<rparr>"

text \<open>
  \<open>#getOperationByName(opName)\<close> returns the method bound to the instance; calling it
  runs the guard and then validates the descriptor.
\<close>

definition getOperationByName :: "operation \<Rightarrow> machine \<Rightarrow> error + effect" where
  "getOperationByName opName m =
     (case guard opName m of
        Inl e \<Rightarrow> Inl e
      | Inr _ \<Rightarrow> defineSafeStateChange m (descriptor opName m))"

text \<open>The loop of \<open>execute\<close> that writes the pushed values and advances the counter.\<close>

fun pushValues :: "int8array \<Rightarrow> int \<Rightarrow> jsval list \<Rightarrow> int8array \<times> int" where
  "pushValues st c [] = (st, c)"
| "pushValues st c (v # vs) = pushValues (typedArraySet st (Num c) v) (c + 1) vs"

text \<open>The mutation of \<open>execute\<close>, applied once the operation has returned its effect.\<close>

definition applyStateChange :: "machine \<Rightarrow> effect \<Rightarrow> machine" where
  "applyStateChange m c =
     (let intermediateStackCounter = stackCounter m - numStackValuesPopped c;
          cleared = fill (stack m) 0 intermediateStackCounter (stackCounter m);
          pushed = pushValues cleared intermediateStackCounter (stackValuesPushed c)
      in \<lparr> stack = fst pushed,
           stackCounter = snd pushed,
           memory = (if memoryAddressWritten c \<noteq> Undefined
                     then typedArraySet (memory m) (memoryAddressWritten c) (memoryValueWritten c)
                     else memory m),
           instructionPointer = js_add (instructionPointer m) (instructionPointerDiff c) \<rparr>)"

text \<open>
  The report of \<open>execute\<close>: on success the operation, its code and the effect applied,
  on failure the error caught.
\<close>

datatype report = Success operation jsval effect | Failure error

fun success :: "report \<Rightarrow> bool" where
  "success (Success _ _ _) = True"
| "success (Failure _) = False"

definition execute :: "machine \<Rightarrow> report \<times> machine" where
  "execute m =
     (let opCode = typedArrayGet (memory m) (instructionPointer m)
      in case getOpNameByCode opCode of
           Inl e \<Rightarrow> (Failure e, m)
         | Inr opName \<Rightarrow>
             (case getOperationByName opName m of
                Inl e \<Rightarrow> (Failure e, m)
              | Inr c \<Rightarrow> (Success opName opCode c, applyStateChange m c)))"

definition reset :: "machine \<Rightarrow> machine" where
  "reset m =
     \<lparr> stack = fill (stack m) 0 0 (int (length (stack m))), stackCounter = 0,
       memory = fill (memory m) 0 0 (int (length (memory m))), instructionPointer = Num 0 \<rparr>"

text \<open>The states an instance can be in: a new one, and what the three methods make of it.\<close>

inductive reachable :: "machine \<Rightarrow> bool" where
  reachable_new: "reachable newStackMachine"
| reachable_load: "reachable m \<Longrightarrow> reachable (snd (load arg m))"
| reachable_execute: "reachable m \<Longrightarrow> reachable (snd (execute m))"
| reachable_reset: "reachable m \<Longrightarrow> reachable (reset m)"

text \<open>\<open>n\<close> calls of \<open>execute\<close> in a row.\<close>

fun steps :: "nat \<Rightarrow> machine \<Rightarrow> machine" where
  "steps 0 m = m"
| "steps (Suc n) m = steps n (snd (execute m))"

section \<open>The assembler (src/unnamed/part_000)\<close>

text \<open>
  Program text is a list of characters with codes below 256. The white space of
  \<open>trim\<close> and of the pattern's \<open>\s\<close> is, in that range: tab, line feed, vertical tab,
  form feed, carriage return, space and the no-break space.
\<close>

definition isSpace :: "char \<Rightarrow> bool" where
  "isSpace c = (of_char c \<in> {9, 10, 11, 12, 13, 32, 160 :: nat})"

definition isDigit :: "char \<Rightarrow> bool" where
  "isDigit c = (48 \<le> (of_char c :: nat) \<and> (of_char c :: nat) \<le> 57)"

text \<open>The class \<open>[\w\d-]\<close>: letters, digits, the underscore and the hyphen.\<close>

definition isTokenChar :: "char \<Rightarrow> bool" where
  "isTokenChar c =
     (let n = of_char c :: nat
      in (65 \<le> n \<and> n \<le> 90) \<or> (97 \<le> n \<and> n \<le> 122) \<or> isDigit c \<or> n = 95 \<or> n = 45)"

definition mnemonics :: "(operation \<times> string) list" where
  "mnemonics =
     [(OpHalt, ''ha''), (OpNoOperation, ''no''), (OpPush, ''pu''), (OpPop, ''po''),
      (OpStore, ''st''), (OpLoad, ''lo''), (OpAdd, ''ad''), (OpSubtract, ''su''),
      (OpMultiply, ''mu''), (OpDivide, ''di''), (OpLess, ''le''), (OpGreater, ''gr''),
      (OpSame, ''sa''), (OpDifferent, ''df''), (OpAnd, ''an''), (OpOr, ''or''),
      (OpNot, ''nt''), (OpJump, ''ju''), (OpJumpConditionally, ''jc'')]"

text \<open>\<open>programText.split("\n")\<close>: the pieces between line feeds, empty ones included.\<close>

fun splitLines :: "string \<Rightarrow> string list" where
  "splitLines [] = [[]]"
| "splitLines (c # cs) =
     (if c = CHR 0x0A then [] # splitLines cs
      else (case splitLines cs of [] \<Rightarrow> [[c]] | l # ls \<Rightarrow> (c # l) # ls))"

definition trim :: "string \<Rightarrow> string" where
  "trim s = rev (dropWhile isSpace (rev (dropWhile isSpace s)))"

text \<open>
  The pattern \<open>/\s*([\w\d-]+)\s*(#([^\n]+))?/\<close> applied with \<open>exec\<close>. The pattern is not
  anchored, so \<open>exec\<close> finds the leftmost match in the line. The first group has to
  start at a token character and a run of white space holds none, so the first group of
  the leftmost match starts at the first token character of the line and, being greedy
  with nothing after it that can fail, is the whole run of token characters there. After
  the white space that follows, the optional group matches when the next character is
  \<open>#\<close> with at least one character other than a line feed behind it; its inner group
  is then the run of such characters. A line without a token character has no match:
  \<open>exec\<close> returns \<open>null\<close>. The result is the pair of groups 1 and 3.
\<close>

definition execPattern :: "string \<Rightarrow> (string \<times> string option) option" where
  "execPattern line =
     (let fromToken = dropWhile (\<lambda>c. \<not> isTokenChar c) line
      in if fromToken = [] then None
         else
           (let code = takeWhile isTokenChar fromToken;
                rest = dropWhile isSpace (dropWhile isTokenChar fromToken)
            in Some (code,
                 (case rest of
                    [] \<Rightarrow> None
                  | c # cs \<Rightarrow>
                      if c = CHR ''#'' \<and> takeWhile (\<lambda>d. d \<noteq> CHR 0x0A) cs \<noteq> []
                      then Some (takeWhile (\<lambda>d. d \<noteq> CHR 0x0A) cs) else None))))"

text \<open>
  \<open>parseInt(code)\<close> with no radix: leading white space is skipped, a sign is read, a
  prefix \<open>0x\<close> or \<open>0X\<close> selects radix 16, and the longest run of digits of the radix is
  the value; no digit gives \<open>NaN\<close> (here \<open>None\<close>). The result is the exact integer (the
  rounding of JavaScript for values beyond \<open>2^53\<close> is not modelled).
\<close>

definition digitValue :: "char \<Rightarrow> nat" where
  "digitValue c =
     (let n = of_char c :: nat
      in if 48 \<le> n \<and> n \<le> 57 then n - 48
         else if 97 \<le> n \<and> n \<le> 122 then n - 87
         else if 65 \<le> n \<and> n \<le> 90 then n - 55
         else 36)"

definition parseInt :: "string \<Rightarrow> int option" where
  "parseInt s =
     (let t = dropWhile isSpace s;
          negative = (t \<noteq> [] \<and> hd t = CHR ''-'');
          u = (if t \<noteq> [] \<and> (hd t = CHR ''-'' \<or> hd t = CHR ''+'') then tl t else t);
          hex = (take 2 u = ''0x'' \<or> take 2 u = ''0X'');
          radix = (if hex then 16 else 10 :: nat);
          digits = takeWhile (\<lambda>c. digitValue c < radix) (if hex then drop 2 u else u);
          n = foldl (\<lambda>acc c. acc * int radix + int (digitValue c)) 0 digits
      in if digits = [] then None else Some (if negative then - n else n))"

datatype node_type = Data | Operation operation

record parse_node =
  nodeCode :: string
  nodeType :: node_type
  nodeValue :: jsval
  nodeComment :: "string option"

text \<open>\<open>Array.prototype.map\<close> with a callback that may throw: the first throw ends it.\<close>

fun mapThrowing :: "('a \<Rightarrow> error + 'b) \<Rightarrow> 'a list \<Rightarrow> error + 'b list" where
  "mapThrowing f [] = Inr []"
| "mapThrowing f (x # xs) =
     (case f x of
        Inl e \<Rightarrow> Inl e
      | Inr y \<Rightarrow> (case mapThrowing f xs of Inl e \<Rightarrow> Inl e | Inr ys \<Rightarrow> Inr (y # ys)))"

definition lineToken :: "string \<Rightarrow> error + (string \<times> string option)" where
  "lineToken line = (case execPattern line of None \<Rightarrow> Inl CapturesNull | Some t \<Rightarrow> Inr t)"

definition classify :: "string \<times> string option \<Rightarrow> error + parse_node" where
  "classify t =
     (case parseInt (fst t) of
        Some v \<Rightarrow>
          Inr \<lparr> nodeCode = fst t, nodeType = Data, nodeValue = Num v, nodeComment = snd t \<rparr>
      | None \<Rightarrow>
          (case find (\<lambda>entry. fst t = snd entry) mnemonics of
             Some entry \<Rightarrow>
               Inr \<lparr> nodeCode = fst t, nodeType = Operation (fst entry), nodeValue = Undefined,
                     nodeComment = snd t \<rparr>
           | None \<Rightarrow> Inl (InvalidAssemblyCode (fst t))))"

definition parseProgram :: "string \<Rightarrow> error + parse_node list" where
  "parseProgram programText =
     (let lines = filter (\<lambda>line. line \<noteq> []) (map trim (splitLines programText))
      in if length lines > memorySize then Inl ProgramLengthExceedsMemory
         else (case mapThrowing lineToken lines of
                 Inl e \<Rightarrow> Inl e
               | Inr lineTokens \<Rightarrow> mapThrowing classify lineTokens))"

text \<open>The callback of \<open>generateInstructions\<close>, with the index of the node.\<close>

definition generateWord :: "parse_node \<times> nat \<Rightarrow> error + jsval" where
  "generateWord entry =
     (case nodeType (fst entry) of
        Data \<Rightarrow>
          if \<not> isInValueRange (nodeValue (fst entry))
          then Inl (DataValueExceedsRange (nodeValue (fst entry)) (snd entry))
          else Inr (nodeValue (fst entry))
      | Operation opName \<Rightarrow>
          (case getOpCodeByName opName of Inl e \<Rightarrow> Inl e | Inr opCode \<Rightarrow> Inr (Num opCode)))"

definition generateInstructions :: "parse_node list \<Rightarrow> error + int8array" where
  "generateInstructions parseTree =
     (case mapThrowing generateWord (zip parseTree [0..<length parseTree]) of
        Inl e \<Rightarrow> Inl e
      | Inr ws \<Rightarrow> Inr (map toInt8 ws))"

section \<open>Sizes\<close>

lemma memorySize_eq: "memorySize = 256"
  by (simp add: memorySize_def wordSize_def)

lemma stackSize_eq: "stackSize = 256"
  by (simp add: stackSize_def wordSize_def)

section \<open>Properties of the code generator\<close>

lemma getOpCodeByName_total: "\<exists>opCode. getOpCodeByName opName = Inr opCode"
  by (cases opName) (simp_all add: getOpCodeByName_def operations_def)

lemma generateWord_RangeError:
  "generateWord entry = Inl e \<Longrightarrow> errorClass e = RangeError"
  using getOpCodeByName_total [of "case nodeType (fst entry) of Operation opName \<Rightarrow> opName"]
  by (auto simp: generateWord_def split: node_type.splits if_splits sum.splits)

lemma mapThrowing_generateWord_fails:
  "n \<in> set parseTree \<Longrightarrow> nodeType n = Data \<Longrightarrow> \<not> isInValueRange (nodeValue n) \<Longrightarrow>
   length idxs = length parseTree \<Longrightarrow>
   \<exists>e. mapThrowing generateWord (zip parseTree idxs) = Inl e \<and> errorClass e = RangeError"
proof (induction parseTree arbitrary: idxs)
  case Nil
  then show ?case by simp
next
  case (Cons x xs)
  then obtain i rest where idxs: "idxs = i # rest" and len: "length rest = length xs"
    by (cases idxs) auto
  show ?case
  proof (cases "generateWord (x, i)")
    case (Inl e)
    then show ?thesis
      using generateWord_RangeError [of "(x, i)" e] by (simp add: idxs)
  next
    case (Inr w)
    then have "n \<noteq> x"
      using Cons.prems(2,3) by (auto simp: generateWord_def)
    then have "n \<in> set xs"
      using Cons.prems(1) by simp
    then obtain e where "mapThrowing generateWord (zip xs rest) = Inl e" "errorClass e = RangeError"
      using Cons.IH [OF _ Cons.prems(2,3) len] by blast
    then show ?thesis
      by (simp add: idxs Inr)
  qed
qed

text \<open>
  Claim C7. The range check accepts an integer \<open>v\<close> exactly when \<open>-128 \<le> v \<le> 127\<close>; 128
  and -129 are rejected; and code generation fails with a \<open>RangeError\<close> for every parse
  tree that holds a data node whose value the check rejects.
\<close>

theorem C7_value_range:
  "(isInValueRange (Num v) \<longleftrightarrow> -128 \<le> v \<and> v \<le> 127)
   \<and> \<not> isInValueRange (Num 128) \<and> \<not> isInValueRange (Num (-129))
   \<and> (n \<in> set parseTree \<and> nodeType n = Data \<and> \<not> isInValueRange (nodeValue n)
        \<longrightarrow> (\<exists>e. generateInstructions parseTree = Inl e \<and> errorClass e = RangeError))"
proof -
  have "n \<in> set parseTree \<and> nodeType n = Data \<and> \<not> isInValueRange (nodeValue n)
        \<longrightarrow> (\<exists>e. generateInstructions parseTree = Inl e \<and> errorClass e = RangeError)"
  proof
    assume a: "n \<in> set parseTree \<and> nodeType n = Data \<and> \<not> isInValueRange (nodeValue n)"
    then obtain e where "mapThrowing generateWord (zip parseTree [0..<length parseTree]) = Inl e"
      "errorClass e = RangeError"
      using mapThrowing_generateWord_fails [of n parseTree "[0..<length parseTree]"] by auto
    then show "\<exists>e. generateInstructions parseTree = Inl e \<and> errorClass e = RangeError"
      by (simp add: generateInstructions_def)
  qed
  then show ?thesis
    by (simp add: wordSize_def)
qed

theorem C7_value_range_witness:
  "generateInstructions
     [\<lparr>nodeCode = ''pu'', nodeType = Operation OpPush, nodeValue = Undefined, nodeComment = None\<rparr>,
      \<lparr>nodeCode = ''128'', nodeType = Data, nodeValue = Num 128, nodeComment = None\<rparr>]
   = Inl (DataValueExceedsRange (Num 128) 1)
   \<and> isInValueRange (Num 127) \<and> isInValueRange (Num (-128))"
  using C7_value_range [of 127
     "\<lparr>nodeCode = ''128'', nodeType = Data, nodeValue = Num 128, nodeComment = None\<rparr>"
     "[\<lparr>nodeCode = ''pu'', nodeType = Operation OpPush, nodeValue = Undefined, nodeComment = None\<rparr>,
      \<lparr>nodeCode = ''128'', nodeType = Data, nodeValue = Num 128, nodeComment = None\<rparr>]"]
  by (simp add: generateInstructions_def generateWord_def getOpCodeByName_def operations_def wordSize_def)

section \<open>Properties of the machine\<close>

subsection \<open>Array elements and the range check\<close>

lemma sint8_range: "- 128 \<le> sint (w :: 8 word) \<and> sint w \<le> 127"
  using sint_ge [of w] sint_lt [of w] by simp

lemma isInValueRange_Num: "isInValueRange (Num v) \<longleftrightarrow> - 128 \<le> v \<and> v \<le> 127"
  by (simp add: wordSize_def)

declare isInValueRange.simps(1) [simp del]

lemma isInValueRange_sint [simp]: "isInValueRange (Num (sint (w :: 8 word)))"
  using sint8_range [of w] by (simp add: isInValueRange_Num)

lemma toInt8_sint [simp]: "toInt8 (Num (sint (w :: 8 word))) = w"
  by simp

lemma sint_toInt8: "isInValueRange v \<Longrightarrow> Num (sint (toInt8 v)) = v"
  by (cases v) (simp_all add: isInValueRange_Num int_word_sint)

lemma fold_copy_nth:
  "n \<le> length ws \<Longrightarrow> n \<le> length mem \<Longrightarrow>
   fold (\<lambda>i mem. typedArraySet mem (Num (int i)) (typedArrayGet ws (Num (int i)))) [0..<n] mem
     = take n ws @ drop n mem"
proof (induction n)
  case 0
  then show ?case by simp
next
  case (Suc n)
  then have "fold (\<lambda>i mem. typedArraySet mem (Num (int i)) (typedArrayGet ws (Num (int i))))
               [0..<Suc n] mem
             = (take n ws @ drop n mem)[n := ws ! n]"
    by simp
  also have "\<dots> = take n ws @ (drop n mem)[0 := ws ! n]"
    using Suc.prems by (simp add: list_update_append)
  also have "\<dots> = take n ws @ ws ! n # drop (Suc n) mem"
    using Suc.prems by (simp add: Cons_nth_drop_Suc [symmetric] del: drop_Suc)
  also have "\<dots> = take (Suc n) ws @ drop (Suc n) mem"
    using Suc.prems by (simp add: take_Suc_conv_app_nth)
  finally show ?case .
qed

subsection \<open>Loading a program\<close>

text \<open>
  Claim C8. For an \<open>Int8Array\<close> of \<open>n\<close> words with \<open>1 \<le> n \<le> memorySize\<close>, \<open>load\<close> writes
  word \<open>i\<close> to address \<open>i\<close> for each \<open>i < n\<close> and leaves the addresses from \<open>n\<close> on, the
  stack, the stack counter and the instruction pointer as they were; for \<open>n = 0\<close> and for
  \<open>n > memorySize\<close> it throws a \<open>RangeError\<close> and leaves the machine as it was.
\<close>

theorem C8_load_frame:
  "length (memory m) = memorySize \<Longrightarrow>
   (1 \<le> length ws \<and> length ws \<le> memorySize \<longrightarrow>
      (\<exists>m'. load (Int8Array ws) m = (None, m')
         \<and> (\<forall>i < length ws. memory m' ! i = ws ! i)
         \<and> (\<forall>i. length ws \<le> i \<and> i < memorySize \<longrightarrow> memory m' ! i = memory m ! i)
         \<and> length (memory m') = memorySize
         \<and> stack m' = stack m \<and> stackCounter m' = stackCounter m
         \<and> instructionPointer m' = instructionPointer m))
   \<and> (length ws = 0 \<or> length ws > memorySize \<longrightarrow>
      (\<exists>e. load (Int8Array ws) m = (Some e, m) \<and> errorClass e = RangeError))"
proof (intro conjI impI)
  assume len: "length (memory m) = memorySize" and n: "1 \<le> length ws \<and> length ws \<le> memorySize"
  let ?mem = "ws @ drop (length ws) (memory m)"
  have copy: "fold (\<lambda>i mem. typedArraySet mem (Num (int i)) (typedArrayGet ws (Num (int i))))
                [0..<length ws] (memory m) = ?mem"
    using len n fold_copy_nth [of "length ws" ws "memory m"] by simp
  have "ws \<noteq> []"
    using n by auto
  then have "load (Int8Array ws) m = (None, m\<lparr>memory := ?mem\<rparr>)"
    using n by (simp add: load_def copy del: typedArraySet.simps typedArrayGet.simps)
  moreover have "\<forall>i < length ws. ?mem ! i = ws ! i"
    by (simp add: nth_append)
  moreover have "\<forall>i. length ws \<le> i \<and> i < memorySize \<longrightarrow> ?mem ! i = memory m ! i"
    using len by (simp add: nth_append)
  moreover have "length ?mem = memorySize"
    using len n by simp
  ultimately show "\<exists>m'. load (Int8Array ws) m = (None, m')
         \<and> (\<forall>i < length ws. memory m' ! i = ws ! i)
         \<and> (\<forall>i. length ws \<le> i \<and> i < memorySize \<longrightarrow> memory m' ! i = memory m ! i)
         \<and> length (memory m') = memorySize
         \<and> stack m' = stack m \<and> stackCounter m' = stackCounter m
         \<and> instructionPointer m' = instructionPointer m"
    by simp
next
  assume "length ws = 0 \<or> length ws > memorySize"
  then show "\<exists>e. load (Int8Array ws) m = (Some e, m) \<and> errorClass e = RangeError"
    by (auto simp: load_def)
qed

theorem C8_load_frame_witness:
  "(\<exists>m'. load (Int8Array [2, 42, 0]) newStackMachine = (None, m')
      \<and> memory m' ! 1 = 42 \<and> memory m' ! 3 = 0 \<and> stackCounter m' = 0)
   \<and> load (Int8Array []) newStackMachine = (Some ProgramEmpty, newStackMachine)"
proof -
  have len: "length (memory newStackMachine) = memorySize"
    by (simp add: newStackMachine_def)
  have n: "1 \<le> length [2, 42, 0 :: 8 word] \<and> length [2, 42, 0 :: 8 word] \<le> memorySize"
    by (simp add: memorySize_eq)
  from C8_load_frame [OF len, of "[2, 42, 0]"] n
  obtain m' where m': "load (Int8Array [2, 42, 0]) newStackMachine = (None, m')"
    "\<forall>i < length [2, 42, 0 :: 8 word]. memory m' ! i = [2, 42, 0] ! i"
    "\<forall>i. length [2, 42, 0 :: 8 word] \<le> i \<and> i < memorySize
         \<longrightarrow> memory m' ! i = memory newStackMachine ! i"
    "stackCounter m' = stackCounter newStackMachine"
    by blast
  have "memory m' ! 1 = 42"
    using m'(2) by simp
  moreover have "memory m' ! 3 = 0"
    using m'(3) by (simp add: memorySize_eq newStackMachine_def)
  moreover have "stackCounter m' = 0"
    using m'(4) by (simp add: newStackMachine_def)
  moreover have "load (Int8Array []) newStackMachine = (Some ProgramEmpty, newStackMachine)"
    using C8_load_frame [OF len, of "[]"] by (simp add: load_def)
  ultimately show ?thesis
    using m'(1) by blast
qed

text \<open>
  Claim C10. For every argument that is not an \<open>Int8Array\<close>, \<open>load\<close> throws a \<open>TypeError\<close>
  and the machine (memory, stack, stack counter, instruction pointer) is as it was.
\<close>

theorem C10_load_type_check:
  "(\<forall>words. arg \<noteq> Int8Array words) \<Longrightarrow>
   load arg m = (Some ProgramNotInt8Array, m) \<and> errorClass ProgramNotInt8Array = TypeError"
  by (cases arg) (simp_all add: load_def)

theorem C10_load_type_check_witness:
  "load (PlainArray [Num 2, Num 42]) newStackMachine = (Some ProgramNotInt8Array, newStackMachine)"
  using C10_load_type_check [of "PlainArray [Num 2, Num 42]" newStackMachine]
  by simp

subsection \<open>One step\<close>

text \<open>
  Claim C3. \<open>execute\<close> always returns a report and a machine, and when the report is a
  failure the machine returned is the machine it was called on: memory, stack, stack
  counter and instruction pointer are unchanged.
\<close>

theorem C3_execute_reports:
  "\<exists>r m'. execute m = (r, m') \<and> (\<not> success r \<longrightarrow> m' = m)"
  by (simp add: execute_def Let_def split: sum.splits)

theorem C3_execute_reports_witness:
  "\<not> success (fst (execute (snd (load (Int8Array [-1]) newStackMachine))))
   \<and> snd (execute (snd (load (Int8Array [-1]) newStackMachine)))
       = snd (load (Int8Array [-1]) newStackMachine)"
  using C3_execute_reports [of "snd (load (Int8Array [-1]) newStackMachine)"]
  by (auto simp add: execute_def load_def newStackMachine_def memorySize_eq getOpNameByCode_def)

lemma length_fill [simp]: "length (fill xs v s e) = length xs"
  by (simp add: fill_def)

lemma nth_fill:
  "i < length xs \<Longrightarrow>
   fill xs v s e ! i =
     (if relativeIndex (length xs) s \<le> int i \<and> int i < relativeIndex (length xs) e then v
      else xs ! i)"
  by (simp add: fill_def)

lemma fill_empty_range:
  "relativeIndex (length xs) e \<le> relativeIndex (length xs) s \<Longrightarrow> fill xs v s e = xs"
  by (rule nth_equalityI) (auto simp: nth_fill)

text \<open>
  Claim C1 says that \<open>pop\<close> on an empty stack fails with a stack underflow and changes
  nothing. The method \<open>#pop\<close> has no \<open>#ensureStackCount\<close> guard, and \<open>#isInStackCount\<close>
  accepts every count that is not negative, so the step succeeds: the report is a
  success, the stack counter becomes -1 and the instruction pointer advances.
\<close>

theorem C1_pop_on_empty_stack:
  assumes "stackCounter m = 0" and "instructionPointer m = Num ip" and "0 \<le> ip"
    and "ip + 1 < int memorySize" and "length (memory m) = memorySize"
    and "memory m ! nat ip = 3"
  shows "execute m =
           (Success OpPop (Num 3) (defaults\<lparr>numStackValuesPopped := 1, instructionPointerDiff := Num 1\<rparr>),
            m\<lparr>stackCounter := - 1, instructionPointer := Num (ip + 1)\<rparr>)"
proof -
  have fetch: "typedArrayGet (memory m) (instructionPointer m) = Num 3"
    using assms by simp
  have decode: "getOpNameByCode (Num 3) = Inr OpPop"
    by (simp add: getOpNameByCode_def operations_def)
  have op: "getOperationByName OpPop m =
              Inr (defaults\<lparr>numStackValuesPopped := 1, instructionPointerDiff := Num 1\<rparr>)"
    using assms
    by (simp add: getOperationByName_def defineSafeStateChange_def isInStackCount_def defaults_def)
  have "fill (stack m) 0 (- 1) 0 = stack m"
    by (rule fill_empty_range) (simp add: relativeIndex_def)
  then have "applyStateChange m (defaults\<lparr>numStackValuesPopped := 1, instructionPointerDiff := Num 1\<rparr>)
        = m\<lparr>stackCounter := - 1, instructionPointer := Num (ip + 1)\<rparr>"
    using assms by (simp add: applyStateChange_def defaults_def)
  then show ?thesis
    by (simp add: execute_def Let_def fetch decode op)
qed

theorem C1_pop_on_empty_stack_witness:
  "stackCounter (snd (load (Int8Array [3]) newStackMachine)) = 0
   \<and> execute (snd (load (Int8Array [3]) newStackMachine)) =
       (Success OpPop (Num 3) (defaults\<lparr>numStackValuesPopped := 1, instructionPointerDiff := Num 1\<rparr>),
        (snd (load (Int8Array [3]) newStackMachine))\<lparr>stackCounter := - 1, instructionPointer := Num 1\<rparr>)"
  using C1_pop_on_empty_stack [of "snd (load (Int8Array [3]) newStackMachine)" 0]
  by (simp add: load_def newStackMachine_def memorySize_eq stackSize_eq)

text \<open>A \<open>push\<close> that stays inside memory succeeds whatever the stack counter is.\<close>

lemma push_step:
  assumes "instructionPointer m = Num ip" and "0 \<le> ip" and "ip + 2 < int memorySize"
    and "length (memory m) = memorySize" and "memory m ! nat ip = 2"
  shows "execute m =
           (Success OpPush (Num 2)
              (defaults\<lparr>stackValuesPushed := [Num (sint (memory m ! nat (ip + 1)))],
                        instructionPointerDiff := Num 2\<rparr>),
            m\<lparr>stack := typedArraySet (stack m) (Num (stackCounter m))
                           (Num (sint (memory m ! nat (ip + 1)))),
              stackCounter := stackCounter m + 1, instructionPointer := Num (ip + 2)\<rparr>)"
proof -
  let ?c = "defaults\<lparr>stackValuesPushed := [Num (sint (memory m ! nat (ip + 1)))],
                      instructionPointerDiff := Num 2\<rparr>"
  have fetch: "typedArrayGet (memory m) (instructionPointer m) = Num 2"
    using assms by simp
  have decode: "getOpNameByCode (Num 2) = Inr OpPush"
    by (simp add: getOpNameByCode_def operations_def)
  have op: "getOperationByName OpPush m = Inr ?c"
    using assms
    by (simp add: getOperationByName_def ensureMemoryBounds_def defineSafeStateChange_def
        isInStackCount_def defaults_def)
  have "fill (stack m) 0 (stackCounter m) (stackCounter m) = stack m"
    by (rule fill_empty_range) simp
  then have "applyStateChange m ?c
        = m\<lparr>stack := typedArraySet (stack m) (Num (stackCounter m))
                           (Num (sint (memory m ! nat (ip + 1)))),
              stackCounter := stackCounter m + 1, instructionPointer := Num (ip + 2)\<rparr>"
    using assms by (simp add: applyStateChange_def Let_def defaults_def del: typedArraySet.simps)
  then show ?thesis
    by (simp add: execute_def Let_def fetch decode op del: typedArraySet.simps)
qed

text \<open>
  Claim C9, amended. With the stack counter equal to \<open>stackSize\<close>, a \<open>push\<close> whose
  immediate and whose following address both lie inside memory (\<open>IP + 2 < memorySize\<close>)
  reports success, the stack counter becomes \<open>stackSize + 1\<close>, and no stack slot changes:
  the pushed value is stored nowhere.
\<close>

theorem C9_push_on_full_stack:
  assumes "stackCounter m = int stackSize" and "length (stack m) = stackSize"
    and "instructionPointer m = Num ip" and "0 \<le> ip" and "ip + 2 < int memorySize"
    and "length (memory m) = memorySize" and "memory m ! nat ip = 2"
  shows "execute m =
           (Success OpPush (Num 2)
              (defaults\<lparr>stackValuesPushed := [Num (sint (memory m ! nat (ip + 1)))],
                        instructionPointerDiff := Num 2\<rparr>),
            m\<lparr>stackCounter := int stackSize + 1, instructionPointer := Num (ip + 2)\<rparr>)"
  using assms push_step [of m ip] by simp

theorem C9_push_on_full_stack_witness:
  "execute \<lparr>stack = replicate 256 1, stackCounter = 256, memory = [2, 42] @ replicate 254 0,
             instructionPointer = Num 0\<rparr> =
     (Success OpPush (Num 2)
        (defaults\<lparr>stackValuesPushed := [Num 42], instructionPointerDiff := Num 2\<rparr>),
      \<lparr>stack = replicate 256 1, stackCounter = 257, memory = [2, 42] @ replicate 254 0,
        instructionPointer = Num 2\<rparr>)"
  using C9_push_on_full_stack
    [of "\<lparr>stack = replicate 256 1, stackCounter = 256, memory = [2, 42] @ replicate 254 0,
             instructionPointer = Num 0\<rparr>" 0]
  by (simp add: memorySize_eq stackSize_eq)

text \<open>
  Claim C9 as stated fails: a valid immediate (\<open>IP + 1 < memorySize\<close>) is not enough. With
  the stack counter equal to \<open>stackSize\<close> and the \<open>push\<close> at address 254, its immediate at
  255, the guard of \<open>push\<close> passes, but the step fails because the new instruction pointer
  256 is outside memory.
\<close>

theorem C9_push_at_end_of_memory_fails:
  "stackCounter \<lparr>stack = replicate 256 1, stackCounter = 256,
                  memory = replicate 254 0 @ [2, 42], instructionPointer = Num 254\<rparr>
     = int stackSize
   \<and> guard OpPush \<lparr>stack = replicate 256 1, stackCounter = 256,
                     memory = replicate 254 0 @ [2, 42], instructionPointer = Num 254\<rparr>
     = Inr ()
   \<and> execute \<lparr>stack = replicate 256 1, stackCounter = 256,
                memory = replicate 254 0 @ [2, 42], instructionPointer = Num 254\<rparr>
     = (Failure (FailInstructionPointerDiff (Num 2)),
        \<lparr>stack = replicate 256 1, stackCounter = 256,
          memory = replicate 254 0 @ [2, 42], instructionPointer = Num 254\<rparr>)"
  by (simp add: execute_def Let_def getOpNameByCode_def operations_def getOperationByName_def
      ensureMemoryBounds_def defineSafeStateChange_def isInStackCount_def isInValueRange_Num
      defaults_def memorySize_eq stackSize_eq nth_append)

subsection \<open>Validation of the state change\<close>

lemma defineSafeStateChange_Inr:
  "defineSafeStateChange m c = Inr c' \<Longrightarrow>
   c' = c \<and> list_all isInValueRange (stackValuesPushed c)
   \<and> (memoryValueWritten c \<noteq> Undefined \<longrightarrow> isInValueRange (memoryValueWritten c))
   \<and> (memoryAddressWritten c \<noteq> Undefined \<longrightarrow> isInAddressRange (memoryAddressWritten c))
   \<and> (\<not> halt c \<longrightarrow>
        isInAddressRange (js_add (instructionPointer m) (instructionPointerDiff c)))"
  by (auto simp: defineSafeStateChange_def split: if_splits)

lemma getOperationByName_Inr:
  "getOperationByName opName m = Inr c \<Longrightarrow>
   c = descriptor opName m \<and> defineSafeStateChange m (descriptor opName m) = Inr c"
  using defineSafeStateChange_Inr [of m "descriptor opName m" c]
  by (simp add: getOperationByName_def split: sum.splits)

text \<open>
  Claim C6. When the operation decoded at the instruction pointer computes a pushed value
  outside the word range, or a memory write value outside it, the step fails and the
  machine is unchanged. Conversely every value pushed or written by a successful step
  lies in the range, so storing it in the typed array does not alter it.
\<close>

theorem C6_out_of_range_value_fails:
  "(getOpNameByCode (typedArrayGet (memory m) (instructionPointer m)) = Inr opName
      \<and> ((\<exists>v \<in> set (stackValuesPushed (descriptor opName m)). \<not> isInValueRange v)
          \<or> (memoryValueWritten (descriptor opName m) \<noteq> Undefined
              \<and> \<not> isInValueRange (memoryValueWritten (descriptor opName m))))
      \<longrightarrow> (\<exists>e. execute m = (Failure e, m)))
   \<and> (execute m = (Success opName' opCode c, m')
      \<longrightarrow> (\<forall>v \<in> set (stackValuesPushed c). isInValueRange v \<and> Num (sint (toInt8 v)) = v)
          \<and> (memoryValueWritten c \<noteq> Undefined
               \<longrightarrow> isInValueRange (memoryValueWritten c)
                   \<and> Num (sint (toInt8 (memoryValueWritten c))) = memoryValueWritten c))"
proof -
  have out_of_range:
    "getOpNameByCode (typedArrayGet (memory m) (instructionPointer m)) = Inr opName
      \<and> ((\<exists>v \<in> set (stackValuesPushed (descriptor opName m)). \<not> isInValueRange v)
          \<or> (memoryValueWritten (descriptor opName m) \<noteq> Undefined
              \<and> \<not> isInValueRange (memoryValueWritten (descriptor opName m))))
      \<longrightarrow> (\<exists>e. execute m = (Failure e, m))"
  proof
    assume a: "getOpNameByCode (typedArrayGet (memory m) (instructionPointer m)) = Inr opName
      \<and> ((\<exists>v \<in> set (stackValuesPushed (descriptor opName m)). \<not> isInValueRange v)
          \<or> (memoryValueWritten (descriptor opName m) \<noteq> Undefined
              \<and> \<not> isInValueRange (memoryValueWritten (descriptor opName m))))"
    have "\<exists>e. getOperationByName opName m = Inl e"
    proof (cases "getOperationByName opName m")
      case (Inl e)
      then show ?thesis by simp
    next
      case (Inr c)
      then have "list_all isInValueRange (stackValuesPushed (descriptor opName m))"
        and "memoryValueWritten (descriptor opName m) \<noteq> Undefined
               \<longrightarrow> isInValueRange (memoryValueWritten (descriptor opName m))"
        using getOperationByName_Inr [OF Inr]
          defineSafeStateChange_Inr [of m "descriptor opName m" c] by simp_all
      then show ?thesis
        using a by (auto simp: list_all_iff)
    qed
    then show "\<exists>e. execute m = (Failure e, m)"
      using a by (auto simp: execute_def Let_def)
  qed
  have in_range:
    "execute m = (Success opName' opCode c, m')
      \<longrightarrow> (\<forall>v \<in> set (stackValuesPushed c). isInValueRange v \<and> Num (sint (toInt8 v)) = v)
          \<and> (memoryValueWritten c \<noteq> Undefined
               \<longrightarrow> isInValueRange (memoryValueWritten c)
                   \<and> Num (sint (toInt8 (memoryValueWritten c))) = memoryValueWritten c)"
  proof
    assume s: "execute m = (Success opName' opCode c, m')"
    then have "getOperationByName opName' m = Inr c"
      by (auto simp: execute_def Let_def split: sum.splits)
    then have ok: "list_all isInValueRange (stackValuesPushed c)"
        "memoryValueWritten c \<noteq> Undefined \<longrightarrow> isInValueRange (memoryValueWritten c)"
      using getOperationByName_Inr [of opName' m c]
        defineSafeStateChange_Inr [of m "descriptor opName' m" c] by simp_all
    have "\<forall>v \<in> set (stackValuesPushed c). isInValueRange v \<and> Num (sint (toInt8 v)) = v"
      using ok(1) by (simp add: list_all_iff sint_toInt8)
    moreover have "memoryValueWritten c \<noteq> Undefined
          \<longrightarrow> isInValueRange (memoryValueWritten c)
              \<and> Num (sint (toInt8 (memoryValueWritten c))) = memoryValueWritten c"
      using ok(2) by (simp add: sint_toInt8)
    ultimately show "(\<forall>v \<in> set (stackValuesPushed c). isInValueRange v \<and> Num (sint (toInt8 v)) = v)
          \<and> (memoryValueWritten c \<noteq> Undefined
               \<longrightarrow> isInValueRange (memoryValueWritten c)
                   \<and> Num (sint (toInt8 (memoryValueWritten c))) = memoryValueWritten c)"
      by (rule conjI)
  qed
  show ?thesis
    using out_of_range in_range by (rule conjI)
qed

theorem C6_out_of_range_value_fails_witness:
  "getOpNameByCode (typedArrayGet ([2, 100, 2, 100, 6] @ replicate 251 0) (Num 4)) = Inr OpAdd
   \<and> stackValuesPushed (descriptor OpAdd
         \<lparr>stack = [100, 100] @ replicate 254 0, stackCounter = 2,
           memory = [2, 100, 2, 100, 6] @ replicate 251 0, instructionPointer = Num 4\<rparr>)
       = [Num 200]
   \<and> \<not> isInValueRange (Num 200)
   \<and> execute \<lparr>stack = [100, 100] @ replicate 254 0, stackCounter = 2,
                memory = [2, 100, 2, 100, 6] @ replicate 251 0, instructionPointer = Num 4\<rparr>
       = (Failure (FailStackValuesPushed [Num 200]),
          \<lparr>stack = [100, 100] @ replicate 254 0, stackCounter = 2,
            memory = [2, 100, 2, 100, 6] @ replicate 251 0, instructionPointer = Num 4\<rparr>)"
proof -
  let ?m = "\<lparr>stack = [100, 100] @ replicate 254 0, stackCounter = 2,
             memory = [2, 100, 2, 100, 6] @ replicate 251 0, instructionPointer = Num 4\<rparr>"
  have decode: "getOpNameByCode (typedArrayGet (memory ?m) (instructionPointer ?m)) = Inr OpAdd"
    by (simp add: getOpNameByCode_def operations_def)
  have pushed: "stackValuesPushed (descriptor OpAdd ?m) = [Num 200]"
    by (simp add: defaults_def stackAt_def)
  have bad: "\<not> isInValueRange (Num 200)"
    by (simp add: isInValueRange_Num)
  have ex: "\<exists>v \<in> set (stackValuesPushed (descriptor OpAdd ?m)). \<not> isInValueRange v"
    unfolding pushed using bad by simp
  have hyp: "getOpNameByCode (typedArrayGet (memory ?m) (instructionPointer ?m)) = Inr OpAdd
      \<and> ((\<exists>v \<in> set (stackValuesPushed (descriptor OpAdd ?m)). \<not> isInValueRange v)
          \<or> (memoryValueWritten (descriptor OpAdd ?m) \<noteq> Undefined
              \<and> \<not> isInValueRange (memoryValueWritten (descriptor OpAdd ?m))))"
    using decode ex by blast
  have "\<exists>e. execute ?m = (Failure e, ?m)"
    by (rule C6_out_of_range_value_fails [of ?m OpAdd, THEN conjunct1, THEN mp, OF hyp])
  then obtain e where e: "execute ?m = (Failure e, ?m)"
    by blast
  moreover have "fst (execute ?m) = Failure (FailStackValuesPushed [Num 200])"
    using decode pushed bad
    by (simp add: execute_def Let_def getOperationByName_def ensureStackCount_def
        defineSafeStateChange_def isInStackCount_def defaults_def)
  ultimately show ?thesis
    using decode pushed bad by simp
qed

subsection \<open>Division\<close>









subsection \<open>Reachable states\<close>

lemma length_typedArraySet [simp]: "length (typedArraySet xs i v) = length xs"
  by (cases i) simp_all

lemma length_pushValues [simp]: "length (fst (pushValues st k vs)) = length st"
  by (induction vs arbitrary: st k) (simp_all del: typedArraySet.simps)

lemma snd_pushValues [simp]: "snd (pushValues st k vs) = k + int (length vs)"
  by (induction vs arbitrary: st k) (simp_all del: typedArraySet.simps)

lemma nth_pushValues_outside:
  "i < length st \<Longrightarrow> int i < k \<or> k + int (length vs) \<le> int i \<Longrightarrow>
   fst (pushValues st k vs) ! i = st ! i"
proof (induction vs arbitrary: st k)
  case Nil
  then show ?case by simp
next
  case (Cons v vs)
  have "fst (pushValues (typedArraySet st (Num k) v) (k + 1) vs) ! i
          = typedArraySet st (Num k) v ! i"
    using Cons.prems by (intro Cons.IH) auto
  also have "\<dots> = st ! i"
    using Cons.prems by auto
  finally show ?case by simp
qed

text \<open>
  An operation that passes its guard and the validation pops no more values than the
  stack counter, unless the counter is zero or below (only \<open>pop\<close> gets that far).
\<close>

lemma popped_count:
  assumes "getOperationByName opName m = Inr c"
  shows "0 \<le> numStackValuesPopped c
         \<and> (numStackValuesPopped c \<le> stackCounter m \<or> stackCounter m \<le> 0)"
proof -
  have c: "c = descriptor opName m" and g: "\<exists>u. guard opName m = Inr u"
    using assms getOperationByName_Inr [OF assms]
    by (auto simp: getOperationByName_def split: sum.splits)
  show ?thesis
    using g unfolding c
    by (cases opName) (auto simp: defaults_def ensureStackCount_def split: if_splits)
qed

lemma applyStateChange_cleared:
  assumes len: "length (stack m) = stackSize"
    and zero: "\<forall>i. stackCounter m \<le> int i \<and> i < stackSize \<longrightarrow> stack m ! i = 0"
    and p: "0 \<le> numStackValuesPopped c"
      "numStackValuesPopped c \<le> stackCounter m \<or> stackCounter m \<le> 0"
  shows "length (stack (applyStateChange m c)) = stackSize
         \<and> (\<forall>i. stackCounter (applyStateChange m c) \<le> int i \<and> i < stackSize
                \<longrightarrow> stack (applyStateChange m c) ! i = 0)"
proof -
  let ?k = "stackCounter m - numStackValuesPopped c"
  let ?cleared = "fill (stack m) 0 ?k (stackCounter m)"
  let ?vs = "stackValuesPushed c"
  have st: "stack (applyStateChange m c) = fst (pushValues ?cleared ?k ?vs)"
    and sc: "stackCounter (applyStateChange m c) = ?k + int (length ?vs)"
    by (simp_all add: applyStateChange_def Let_def)
  have "stack (applyStateChange m c) ! i = 0"
    if i: "?k + int (length ?vs) \<le> int i" "i < stackSize" for i
  proof -
    have "fst (pushValues ?cleared ?k ?vs) ! i = ?cleared ! i"
      using i len by (intro nth_pushValues_outside) simp_all
    also have "\<dots> = 0"
    proof (cases "stackCounter m \<le> int i")
      case True
      then show ?thesis
        using i len zero by (simp add: nth_fill)
    next
      case False
      then have "0 < stackCounter m"
        by simp
      then have "0 \<le> ?k" "?k \<le> int i"
        using p i by simp_all
      then have "relativeIndex (length (stack m)) ?k \<le> int i"
        "int i < relativeIndex (length (stack m)) (stackCounter m)"
        using False i len by (simp_all add: relativeIndex_def)
      then show ?thesis
        using i len by (simp add: nth_fill)
    qed
    finally show ?thesis
      by (simp add: st)
  qed
  then show ?thesis
    using len by (simp add: st sc)
qed

lemma execute_cleared:
  assumes "length (stack m) = stackSize"
    and "\<forall>i. stackCounter m \<le> int i \<and> i < stackSize \<longrightarrow> stack m ! i = 0"
  shows "length (stack (snd (execute m))) = stackSize
         \<and> (\<forall>i. stackCounter (snd (execute m)) \<le> int i \<and> i < stackSize
                \<longrightarrow> stack (snd (execute m)) ! i = 0)"
proof (cases "fst (execute m)")
  case (Failure e)
  then have "snd (execute m) = m"
    by (auto simp: execute_def Let_def split: sum.splits)
  then show ?thesis
    using assms by simp
next
  case (Success opName opCode c)
  then have op: "getOperationByName opName m = Inr c" and m': "snd (execute m) = applyStateChange m c"
    by (auto simp: execute_def Let_def split: sum.splits)
  show ?thesis
    unfolding m' using applyStateChange_cleared [OF assms] popped_count [OF op] by blast
qed

text \<open>
  The zero-fill half of the stack invariant holds: in every state reachable from a new
  instance by \<open>load\<close>, \<open>execute\<close> and \<open>reset\<close>, the stack has \<open>stackSize\<close> entries and
  every entry at an index from the stack counter up to \<open>stackSize\<close> is zero.
\<close>

lemma reachable_stack_cleared:
  "reachable m \<Longrightarrow>
   length (stack m) = stackSize
   \<and> (\<forall>i. stackCounter m \<le> int i \<and> i < stackSize \<longrightarrow> stack m ! i = 0)"
proof (induction rule: reachable.induct)
  case reachable_new
  then show ?case
    by (simp add: newStackMachine_def)
next
  case (reachable_load m arg)
  have "stack (snd (load arg m)) = stack m" "stackCounter (snd (load arg m)) = stackCounter m"
    by (simp_all add: load_def split: argument.splits)
  then show ?case
    using reachable_load.IH by simp
next
  case (reachable_execute m)
  then show ?case
    using execute_cleared [of m] by blast
next
  case (reachable_reset m)
  then show ?case
    by (simp add: reset_def nth_fill relativeIndex_def)
qed

text \<open>Running a program: helper facts for \<open>load\<close>, \<open>push\<close> and \<open>jump\<close>.\<close>

lemma steps_add: "steps (a + b) m = steps b (steps a m)"
  by (induction a arbitrary: m) simp_all

lemma reachable_steps: "reachable m \<Longrightarrow> reachable (steps n m)"
  by (induction n arbitrary: m) (simp_all add: reachable_execute)

lemma load_memory:
  assumes "ws \<noteq> []" and "length ws \<le> memorySize" and "length (memory m) = memorySize"
  shows "snd (load (Int8Array ws) m) = m\<lparr>memory := ws @ drop (length ws) (memory m)\<rparr>"
proof -
  have "fold (\<lambda>i mem. typedArraySet mem (Num (int i)) (typedArrayGet ws (Num (int i))))
          [0..<length ws] (memory m) = ws @ drop (length ws) (memory m)"
    using assms fold_copy_nth [of "length ws" ws "memory m"] by simp
  then show ?thesis
    using assms by (simp add: load_def del: typedArraySet.simps typedArrayGet.simps)
qed

lemma push_step_fields:
  assumes "instructionPointer m = Num ip" and "0 \<le> ip" and "ip + 2 < int memorySize"
    and "length (memory m) = memorySize" and "memory m ! nat ip = 2"
  shows "memory (snd (execute m)) = memory m"
    and "instructionPointer (snd (execute m)) = Num (ip + 2)"
    and "stackCounter (snd (execute m)) = stackCounter m + 1"
    and "stack (snd (execute m)) =
           typedArraySet (stack m) (Num (stackCounter m)) (Num (sint (memory m ! nat (ip + 1))))"
  using push_step [OF assms] by (simp_all del: typedArraySet.simps)

lemma jump_step_fields:
  assumes "instructionPointer m = Num ip" and "0 \<le> ip" and "ip < int memorySize"
    and "length (memory m) = memorySize" and "memory m ! nat ip = 17"
    and "1 \<le> stackCounter m" and "stackAt m 1 = Num target"
    and "0 \<le> target" and "target < int memorySize"
  shows "memory (snd (execute m)) = memory m"
    and "instructionPointer (snd (execute m)) = Num target"
    and "stackCounter (snd (execute m)) = stackCounter m - 1"
    and "length (stack (snd (execute m))) = length (stack m)"
proof -
  have fetch: "typedArrayGet (memory m) (instructionPointer m) = Num 17"
    using assms by simp
  have decode: "getOpNameByCode (Num 17) = Inr OpJump"
    by (simp add: getOpNameByCode_def operations_def)
  have "getOperationByName OpJump m =
          Inr (defaults\<lparr>numStackValuesPopped := 1, instructionPointerDiff := Num (target - ip)\<rparr>)"
    using assms
    by (simp add: getOperationByName_def ensureStackCount_def defineSafeStateChange_def
        isInStackCount_def defaults_def)
  then have m': "snd (execute m) =
           applyStateChange m
             (defaults\<lparr>numStackValuesPopped := 1, instructionPointerDiff := Num (target - ip)\<rparr>)"
    by (simp add: execute_def Let_def fetch decode)
  show "memory (snd (execute m)) = memory m"
    and "instructionPointer (snd (execute m)) = Num target"
    and "stackCounter (snd (execute m)) = stackCounter m - 1"
    and "length (stack (snd (execute m))) = length (stack m)"
    unfolding m' using assms by (simp_all add: applyStateChange_def Let_def defaults_def)
qed

text \<open>
  The program \<open>pu 1, pu 0, ju\<close>: each round of three steps leaves one more value on the
  stack and returns to address 0.
\<close>

lemma loop_round:
  assumes "memory m = [2, 1, 2, 0, 17] @ replicate 251 0" and "instructionPointer m = Num 0"
    and "0 \<le> stackCounter m" and "stackCounter m \<le> 254" and "length (stack m) = stackSize"
  shows "memory (steps 3 m) = [2, 1, 2, 0, 17] @ replicate 251 0
         \<and> instructionPointer (steps 3 m) = Num 0
         \<and> stackCounter (steps 3 m) = stackCounter m + 1
         \<and> length (stack (steps 3 m)) = stackSize"
proof -
  define m1 where "m1 = snd (execute m)"
  define m2 where "m2 = snd (execute m1)"
  define m3 where "m3 = snd (execute m2)"
  have m1: "memory m1 = [2, 1, 2, 0, 17] @ replicate 251 0" "instructionPointer m1 = Num 2"
    "stackCounter m1 = stackCounter m + 1" "length (stack m1) = stackSize"
    unfolding m1_def using push_step_fields [of m 0] assms by (simp_all add: memorySize_eq)
  have m2: "memory m2 = [2, 1, 2, 0, 17] @ replicate 251 0" "instructionPointer m2 = Num 4"
    "stackCounter m2 = stackCounter m + 2" "length (stack m2) = stackSize"
    "stack m2 = typedArraySet (stack m1) (Num (stackCounter m + 1)) (Num 0)"
    unfolding m2_def using push_step_fields [of m1 2] m1
    by (simp_all add: memorySize_eq del: typedArraySet.simps)
  have "sint (stack m2 ! nat (stackCounter m + 1)) = 0"
    using assms m1 by (simp add: m2(5) stackSize_eq)
  moreover have "stackCounter m2 - 1 = stackCounter m + 1"
    using m2(3) by simp
  moreover have "0 \<le> stackCounter m + 1 \<and> stackCounter m + 1 < int (length (stack m2))"
    using assms m2(4) by (simp add: stackSize_eq)
  ultimately have top: "stackAt m2 1 = Num 0"
    unfolding stackAt_def by (simp only: typedArrayGet.simps simp_thms if_True)
  have "memory m3 = [2, 1, 2, 0, 17] @ replicate 251 0" "instructionPointer m3 = Num 0"
    "stackCounter m3 = stackCounter m + 1" "length (stack m3) = stackSize"
    unfolding m3_def using jump_step_fields [of m2 4 0] m2(1-4) top assms
    by (simp_all add: memorySize_eq)
  moreover have "steps 3 m = m3"
    by (simp add: numeral_3_eq_3 m1_def m2_def m3_def)
  ultimately show ?thesis
    by simp
qed

lemma loop_rounds:
  assumes "memory m = [2, 1, 2, 0, 17] @ replicate 251 0" and "instructionPointer m = Num 0"
    and "stackCounter m = 0" and "length (stack m) = stackSize"
  shows "n \<le> 255 \<Longrightarrow>
         memory (steps (3 * n) m) = [2, 1, 2, 0, 17] @ replicate 251 0
         \<and> instructionPointer (steps (3 * n) m) = Num 0
         \<and> stackCounter (steps (3 * n) m) = int n
         \<and> length (stack (steps (3 * n) m)) = stackSize"
proof (induction n)
  case 0
  then show ?case
    using assms by simp
next
  case (Suc n)
  define m' where "m' = steps (3 * n) m"
  have ih: "memory m' = [2, 1, 2, 0, 17] @ replicate 251 0" "instructionPointer m' = Num 0"
    "stackCounter m' = int n" "length (stack m') = stackSize"
    unfolding m'_def using Suc by simp_all
  have "3 * Suc n = 3 * n + 3"
    by simp
  then have "steps (3 * Suc n) m = steps 3 m'"
    unfolding m'_def by (simp only: steps_add)
  then show ?case
    using loop_round [of m'] ih Suc.prems by simp
qed

text \<open>
  Claim C2 says that in every state reachable by \<open>load\<close>, \<open>execute\<close> and \<open>reset\<close> the stack
  counter lies between 0 and \<open>stackSize\<close> and the stack is zero from the counter on. The
  bound is not kept: no method calls \<open>#ensureStackBounds\<close>, so a \<open>push\<close> onto a full stack
  still counts. After \<open>load\<close> of the program \<open>pu 1, pu 0, ju\<close> and 767 calls of \<open>execute\<close>
  (255 rounds and two more pushes) the stack counter is 257, above \<open>stackSize\<close>.
\<close>

theorem C2_counter_exceeds_stackSize:
  "reachable (steps 767 (snd (load (Int8Array [2, 1, 2, 0, 17]) newStackMachine)))
   \<and> stackCounter (steps 767 (snd (load (Int8Array [2, 1, 2, 0, 17]) newStackMachine))) = 257
   \<and> \<not> (257 \<le> int stackSize)"
proof -
  define m0 where "m0 = snd (load (Int8Array [2, 1, 2, 0, 17]) newStackMachine)"
  define m where "m = steps (3 * 255) m0"
  define m1 where "m1 = snd (execute m)"
  define m2 where "m2 = snd (execute m1)"
  have r: "reachable (steps 767 m0)"
    unfolding m0_def by (intro reachable_steps reachable.intros)
  have "m0 = newStackMachine\<lparr>memory := [2, 1, 2, 0, 17] @ drop 5 (memory newStackMachine)\<rparr>"
    unfolding m0_def using load_memory [of "[2, 1, 2, 0, 17]" newStackMachine]
    by (simp add: newStackMachine_def memorySize_eq)
  then have m0: "memory m0 = [2, 1, 2, 0, 17] @ replicate 251 0" "instructionPointer m0 = Num 0"
    "stackCounter m0 = 0" "length (stack m0) = stackSize"
    by (simp_all add: newStackMachine_def memorySize_eq stackSize_eq)
  have m: "memory m = [2, 1, 2, 0, 17] @ replicate 251 0" "instructionPointer m = Num 0"
    "stackCounter m = 255" "length (stack m) = stackSize"
    unfolding m_def using loop_rounds [OF m0, of 255] by simp_all
  have m1: "memory m1 = [2, 1, 2, 0, 17] @ replicate 251 0" "instructionPointer m1 = Num 2"
    "stackCounter m1 = 256"
    unfolding m1_def using push_step_fields [of m 0] m by (simp_all add: memorySize_eq)
  have "stackCounter m2 = 257"
    unfolding m2_def using push_step_fields(3) [of m1 2] m1 by (simp add: memorySize_eq)
  moreover have "767 = 3 * 255 + (2 :: nat)"
    by simp
  then have "steps 767 m0 = steps 2 m"
    unfolding m_def by (simp only: steps_add)
  then have "steps 767 m0 = m2"
    by (simp add: numeral_2_eq_2 m1_def m2_def)
  ultimately show ?thesis
    using r by (simp add: stackSize_eq m0_def)
qed

section \<open>Properties of the parser\<close>

text \<open>
  Claim C5 says that a line which is not a token optionally followed by a comment, in
  particular a line that is only a comment, makes \<open>parseProgram\<close> fail. The pattern is
  not anchored, so the token is found inside the comment: the line \<open># ha\<close> is parsed as
  the operation \<open>halt\<close>.
\<close>

theorem C5_comment_line_parsed_as_halt:
  "trim ''# ha'' = ''# ha''
   \<and> parseProgram ''# ha'' =
       Inr [\<lparr>nodeCode = ''ha'', nodeType = Operation OpHalt, nodeValue = Undefined,
              nodeComment = None\<rparr>]"
  by code_simp

end
